theory Spec2Isabelle
  imports Complex_Main
begin

section \<open>Frequency band classification (index.ts)\<close>

text \<open>
  Carrier frequencies are JavaScript numbers holding megahertz values.  They are
  modelled as \<^typ>\<open>real\<close>: comparisons and subtraction are exact, so the rounding of
  IEEE doubles and the special values NaN and Infinity are outside the model.
\<close>

subsection \<open>The exported constants \<open>CarrierFrequencies\<close>\<close>

definition GPS_L1 :: real where "GPS_L1 = 1575.42"
definition GPS_L2 :: real where "GPS_L2 = 1227.6"
definition GPS_L3 :: real where "GPS_L3 = 1381.05"
definition GPS_L4 :: real where "GPS_L4 = 1379.913"
definition GPS_L5 :: real where "GPS_L5 = 1176.45"

definition GLONASS_L1_MIN :: real where "GLONASS_L1_MIN = 1598.0625"
definition GLONASS_L1_MAX :: real where "GLONASS_L1_MAX = 1605.375"
definition GLONASS_L1_CENTER :: real where "GLONASS_L1_CENTER = 1602.0"
definition GLONASS_L2_MIN :: real where "GLONASS_L2_MIN = 1242.9375"
definition GLONASS_L2_MAX :: real where "GLONASS_L2_MAX = 1248.625"
definition GLONASS_L2_CENTER :: real where "GLONASS_L2_CENTER = 1246.0"
definition GLONASS_L3 :: real where "GLONASS_L3 = 1202.025"
definition GLONASS_L5 :: real where "GLONASS_L5 = 1176.45"

definition QZSS_L1 :: real where "QZSS_L1 = 1575.42"
definition QZSS_L2 :: real where "QZSS_L2 = 1227.6"
definition QZSS_L5 :: real where "QZSS_L5 = 1176.45"
definition QZSS_LEX :: real where "QZSS_LEX = 1278.75"

definition GALILEO_E1 :: real where "GALILEO_E1 = 1575.42"
definition GALILEO_E5 :: real where "GALILEO_E5 = 1191.795"
definition GALILEO_E5a :: real where "GALILEO_E5a = 1176.45"
definition GALILEO_E5b :: real where "GALILEO_E5b = 1207.14"
definition GALILEO_E6 :: real where "GALILEO_E6 = 1278.75"

definition BEIDOU_B1 :: real where "BEIDOU_B1 = 1561.098"
definition BEIDOU_B1_2 :: real where "BEIDOU_B1_2 = 1589.742"
definition BEIDOU_B2 :: real where "BEIDOU_B2 = 1207.14"
definition BEIDOU_B2a :: real where "BEIDOU_B2a = 1176.45"
definition BEIDOU_B3 :: real where "BEIDOU_B3 = 1268.52"

definition NAVIC_L5 :: real where "NAVIC_L5 = 1176.45"
definition NAVIC_S :: real where "NAVIC_S = 2492.028"

definition SBAS_L1 :: real where "SBAS_L1 = 1575.42"
definition SBAS_L5 :: real where "SBAS_L5 = 1176.45"

subsection \<open>\<open>FrequencyBandInfo\<close> and \<open>identifyFrequencyBand\<close>\<close>

record FrequencyBandInfo =
  frequency :: real
  constellation :: string
  band :: string
  isDualFrequency :: bool

text \<open>
  The function is one chain of early returns; the chain is kept in the order of the
  source.  The second parameter is the tolerance, whose default value is
  \<open>default_tolerance\<close>.
\<close>

definition default_tolerance :: real where "default_tolerance = 1.0"

definition identifyFrequencyBand :: "real \<Rightarrow> real \<Rightarrow> FrequencyBandInfo" where
  "identifyFrequencyBand frequencyMHz tolerance =
    (let freq = frequencyMHz in
     if \<bar>freq - GPS_L1\<bar> \<le> tolerance then
       \<lparr>frequency = freq, constellation = ''GPS'', band = ''L1'', isDualFrequency = False\<rparr>
     else if \<bar>freq - GPS_L2\<bar> \<le> tolerance then
       \<lparr>frequency = freq, constellation = ''GPS'', band = ''L2'', isDualFrequency = True\<rparr>
     else if \<bar>freq - GPS_L5\<bar> \<le> tolerance then
       \<lparr>frequency = freq, constellation = ''GPS'', band = ''L5'', isDualFrequency = True\<rparr>
     else if freq \<ge> GLONASS_L1_MIN - tolerance \<and> freq \<le> GLONASS_L1_MAX + tolerance then
       \<lparr>frequency = freq, constellation = ''GLONASS'', band = ''L1'', isDualFrequency = False\<rparr>
     else if freq \<ge> GLONASS_L2_MIN - tolerance \<and> freq \<le> GLONASS_L2_MAX + tolerance then
       \<lparr>frequency = freq, constellation = ''GLONASS'', band = ''L2'', isDualFrequency = True\<rparr>
     else if \<bar>freq - GLONASS_L5\<bar> \<le> tolerance then
       \<lparr>frequency = freq, constellation = ''GLONASS'', band = ''L5'', isDualFrequency = True\<rparr>
     else if \<bar>freq - GALILEO_E1\<bar> \<le> tolerance then
       \<lparr>frequency = freq, constellation = ''GALILEO'', band = ''E1'', isDualFrequency = False\<rparr>
     else if \<bar>freq - GALILEO_E5a\<bar> \<le> tolerance then
       \<lparr>frequency = freq, constellation = ''GALILEO'', band = ''E5a'', isDualFrequency = True\<rparr>
     else if \<bar>freq - GALILEO_E5b\<bar> \<le> tolerance then
       \<lparr>frequency = freq, constellation = ''GALILEO'', band = ''E5b'', isDualFrequency = True\<rparr>
     else if \<bar>freq - BEIDOU_B1\<bar> \<le> tolerance then
       \<lparr>frequency = freq, constellation = ''BEIDOU'', band = ''B1'', isDualFrequency = False\<rparr>
     else if \<bar>freq - BEIDOU_B2a\<bar> \<le> tolerance then
       \<lparr>frequency = freq, constellation = ''BEIDOU'', band = ''B2a'', isDualFrequency = True\<rparr>
     else if \<bar>freq - BEIDOU_B3\<bar> \<le> tolerance then
       \<lparr>frequency = freq, constellation = ''BEIDOU'', band = ''B3'', isDualFrequency = True\<rparr>
     else if \<bar>freq - QZSS_L1\<bar> \<le> tolerance then
       \<lparr>frequency = freq, constellation = ''QZSS'', band = ''L1'', isDualFrequency = False\<rparr>
     else if \<bar>freq - QZSS_L5\<bar> \<le> tolerance then
       \<lparr>frequency = freq, constellation = ''QZSS'', band = ''L5'', isDualFrequency = True\<rparr>
     else if \<bar>freq - NAVIC_L5\<bar> \<le> tolerance then
       \<lparr>frequency = freq, constellation = ''NAVIC'', band = ''L5'', isDualFrequency = True\<rparr>
     else if \<bar>freq - NAVIC_S\<bar> \<le> tolerance then
       \<lparr>frequency = freq, constellation = ''NAVIC'', band = ''S'', isDualFrequency = True\<rparr>
     else if \<bar>freq - SBAS_L1\<bar> \<le> tolerance then
       \<lparr>frequency = freq, constellation = ''SBAS'', band = ''L1'', isDualFrequency = False\<rparr>
     else if \<bar>freq - SBAS_L5\<bar> \<le> tolerance then
       \<lparr>frequency = freq, constellation = ''SBAS'', band = ''L5'', isDualFrequency = True\<rparr>
     else
       \<lparr>frequency = freq, constellation = ''UNKNOWN'', band = ''UNKNOWN'',
        isDualFrequency = False\<rparr>)"

text \<open>
  \<open>Array.prototype.some\<close>: the callback is tried on the elements from left to right and
  the first element that satisfies it ends the scan.
\<close>

fun some :: "('a \<Rightarrow> bool) \<Rightarrow> 'a list \<Rightarrow> bool" where
  "some p [] = False"
| "some p (x # xs) = (if p x then True else some p xs)"

definition isDualFrequencySupported :: "real list \<Rightarrow> bool" where
  "isDualFrequencySupported carrierFrequencies =
    some (\<lambda>freq. let bandInfo = identifyFrequencyBand freq default_tolerance
                 in isDualFrequency bandInfo) carrierFrequencies"

definition getFrequencyBandInfo :: "real list \<Rightarrow> FrequencyBandInfo list" where
  "getFrequencyBandInfo carrierFrequencies =
    map (\<lambda>freq. identifyFrequencyBand freq default_tolerance) carrierFrequencies"

subsection \<open>The classifier as a scan of a table\<close>

text \<open>
  The specification describes the classifier as a linear scan of a table of band
  descriptors in which the first matching entry wins.  \<open>classify\<close> is that scan, for
  any table; \<open>implementedBands\<close> lists the branches of \<open>identifyFrequencyBand\<close> in
  their order.
\<close>

datatype descriptor = Nominal real | Range real real

type_synonym bandEntry = "descriptor \<times> string \<times> string \<times> bool"

fun matches :: "descriptor \<Rightarrow> real \<Rightarrow> real \<Rightarrow> bool" where
  "matches (Nominal nominal) f tolerance = (\<bar>f - nominal\<bar> \<le> tolerance)"
| "matches (Range lo hi) f tolerance = (f \<ge> lo - tolerance \<and> f \<le> hi + tolerance)"

definition unknownBand :: "real \<Rightarrow> FrequencyBandInfo" where
  "unknownBand f =
    \<lparr>frequency = f, constellation = ''UNKNOWN'', band = ''UNKNOWN'', isDualFrequency = False\<rparr>"

fun bandOf :: "real \<Rightarrow> bandEntry \<Rightarrow> FrequencyBandInfo" where
  "bandOf f (d, c, b, dual) =
    \<lparr>frequency = f, constellation = c, band = b, isDualFrequency = dual\<rparr>"

fun classify :: "bandEntry list \<Rightarrow> real \<Rightarrow> real \<Rightarrow> FrequencyBandInfo" where
  "classify [] f tolerance = unknownBand f"
| "classify (e # es) f tolerance =
    (if matches (fst e) f tolerance then bandOf f e else classify es f tolerance)"

definition implementedBands :: "bandEntry list" where
  "implementedBands =
    [(Nominal GPS_L1, ''GPS'', ''L1'', False),
     (Nominal GPS_L2, ''GPS'', ''L2'', True),
     (Nominal GPS_L5, ''GPS'', ''L5'', True),
     (Range GLONASS_L1_MIN GLONASS_L1_MAX, ''GLONASS'', ''L1'', False),
     (Range GLONASS_L2_MIN GLONASS_L2_MAX, ''GLONASS'', ''L2'', True),
     (Nominal GLONASS_L5, ''GLONASS'', ''L5'', True),
     (Nominal GALILEO_E1, ''GALILEO'', ''E1'', False),
     (Nominal GALILEO_E5a, ''GALILEO'', ''E5a'', True),
     (Nominal GALILEO_E5b, ''GALILEO'', ''E5b'', True),
     (Nominal BEIDOU_B1, ''BEIDOU'', ''B1'', False),
     (Nominal BEIDOU_B2a, ''BEIDOU'', ''B2a'', True),
     (Nominal BEIDOU_B3, ''BEIDOU'', ''B3'', True),
     (Nominal QZSS_L1, ''QZSS'', ''L1'', False),
     (Nominal QZSS_L5, ''QZSS'', ''L5'', True),
     (Nominal NAVIC_L5, ''NAVIC'', ''L5'', True),
     (Nominal NAVIC_S, ''NAVIC'', ''S'', True),
     (Nominal SBAS_L1, ''SBAS'', ''L1'', False),
     (Nominal SBAS_L5, ''SBAS'', ''L5'', True)]"


text \<open>
  The reference table of section 4.1 of the specification, row by row, each row with its
  primary band first.  It has rows that \<open>identifyFrequencyBand\<close> has no branch for:
  Galileo E5 and E6, BeiDou B2, QZSS L2 and LEX.
\<close>

definition referenceTable :: "bandEntry list" where
  "referenceTable =
    [(Nominal 1575.42, ''GPS'', ''L1'', False),
     (Nominal 1227.6, ''GPS'', ''L2'', True),
     (Nominal 1176.45, ''GPS'', ''L5'', True),
     (Range 1598.0625 1605.375, ''GLONASS'', ''L1'', False),
     (Range 1242.9375 1248.625, ''GLONASS'', ''L2'', True),
     (Nominal 1176.45, ''GLONASS'', ''L5'', True),
     (Nominal 1575.42, ''GALILEO'', ''E1'', False),
     (Nominal 1176.45, ''GALILEO'', ''E5a'', True),
     (Nominal 1207.14, ''GALILEO'', ''E5b'', True),
     (Nominal 1191.795, ''GALILEO'', ''E5'', True),
     (Nominal 1278.75, ''GALILEO'', ''E6'', True),
     (Nominal 1561.098, ''BEIDOU'', ''B1'', False),
     (Nominal 1176.45, ''BEIDOU'', ''B2a'', True),
     (Nominal 1207.14, ''BEIDOU'', ''B2'', True),
     (Nominal 1268.52, ''BEIDOU'', ''B3'', True),
     (Nominal 1575.42, ''QZSS'', ''L1'', False),
     (Nominal 1227.6, ''QZSS'', ''L2'', True),
     (Nominal 1176.45, ''QZSS'', ''L5'', True),
     (Nominal 1278.75, ''QZSS'', ''LEX'', True),
     (Nominal 1176.45, ''NAVIC'', ''L5'', True),
     (Nominal 2492.028, ''NAVIC'', ''S'', True),
     (Nominal 1575.42, ''SBAS'', ''L1'', False),
     (Nominal 1176.45, ''SBAS'', ''L5'', True)]"

section \<open>Satellite helpers (index.ts)\<close>

text \<open>
  An optional field of \<open>SatelliteInfo\<close> (\<open>cn0DbHz?: number\<close>) is an \<open>option\<close>:
  \<open>None\<close> is the absent field, which the source reads as \<open>undefined\<close>.
\<close>

record SatelliteInfo =
  svid :: int
  constellationType :: int
  constellationName :: string
  cn0DbHz :: "real option"
  elevation :: "real option"
  azimuth :: "real option"
  hasEphemeris :: bool
  hasAlmanac :: bool
  usedInFix :: bool
  carrierFrequencyHz :: "real option"

definition getSatellitesByConstellation :: "SatelliteInfo list \<Rightarrow> int \<Rightarrow> SatelliteInfo list" where
  "getSatellitesByConstellation satellites constellationType' =
    filter (\<lambda>sat. constellationType sat = constellationType') satellites"

definition getSatellitesUsedInFix :: "SatelliteInfo list \<Rightarrow> SatelliteInfo list" where
  "getSatellitesUsedInFix satellites = filter (\<lambda>sat. SatelliteInfo.usedInFix sat) satellites"

definition default_minCn0 :: real where "default_minCn0 = 20"

definition getSatellitesWithGoodSignal :: "SatelliteInfo list \<Rightarrow> real \<Rightarrow> SatelliteInfo list" where
  "getSatellitesWithGoodSignal satellites minCn0 =
    filter (\<lambda>sat. cn0DbHz sat \<noteq> None \<and> the (cn0DbHz sat) \<ge> minCn0) satellites"

subsection \<open>\<open>getSatelliteStatistics\<close>\<close>

text \<open>
  \<open>byConstellation\<close> is the object literal \<open>{}\<close> used as a dictionary.  Its own
  properties are a map from names to values.  Reading a name that is not an own property
  finds the member that a plain object inherits from \<open>Object.prototype\<close>, when there is
  one of that name; such a member is a function (an object for \<open>__proto__\<close>), it is
  truthy, and adding \<open>1\<close> to it concatenates text.  So a value is a number or a text.
\<close>

datatype propertyValue = NumberValue nat | TextValue

definition objectPrototypeMembers :: "string list" where
  "objectPrototypeMembers =
    [''constructor'', ''hasOwnProperty'', ''isPrototypeOf'', ''propertyIsEnumerable'',
     ''toLocaleString'', ''toString'', ''valueOf'', ''__defineGetter__'',
     ''__defineSetter__'', ''__lookupGetter__'', ''__lookupSetter__'', ''__proto__'']"

text \<open>
  One turn of the \<open>forEach\<close> loop:
  \<open>byConstellation[name] = (byConstellation[name] || 0) + 1\<close>.  An assignment to
  \<open>__proto__\<close> of a value that is not an object leaves the object as it is.
\<close>

definition countConstellation ::
  "(string \<rightharpoonup> propertyValue) \<Rightarrow> string \<Rightarrow> (string \<rightharpoonup> propertyValue)" where
  "countConstellation byConstellation' name =
    (let incremented =
       (case byConstellation' name of
          Some (NumberValue n) \<Rightarrow> NumberValue (n + 1)
        | Some TextValue \<Rightarrow> TextValue
        | None \<Rightarrow> if name \<in> set objectPrototypeMembers then TextValue else NumberValue 1)
     in if name = ''__proto__'' then byConstellation'
        else byConstellation'(name \<mapsto> incremented))"

record SatelliteStatistics =
  total :: nat
  usedInFix :: nat
  withEphemeris :: nat
  withAlmanac :: nat
  withGoodSignal :: nat
  byConstellation :: "string \<rightharpoonup> propertyValue"
  averageSignalStrength :: real
  strongestSignal :: real
  weakestSignal :: real

text \<open>
  \<open>Math.max\<close> and \<open>Math.min\<close> are called on the spread list only when it is not
  empty; on the arguments \<open>s, rest\<close> they fold \<open>max\<close> and \<open>min\<close> from \<open>s\<close>.
  \<open>reduce((a, b) => a + b, 0)\<close> is a left fold from \<open>0\<close>.
\<close>

definition getSatelliteStatistics :: "SatelliteInfo list \<Rightarrow> SatelliteStatistics" where
  "getSatelliteStatistics satellites =
    (let stats =
       \<lparr>total = length satellites,
        usedInFix = length (filter (\<lambda>sat. SatelliteInfo.usedInFix sat) satellites),
        withEphemeris = length (filter (\<lambda>sat. hasEphemeris sat) satellites),
        withAlmanac = length (filter (\<lambda>sat. hasAlmanac sat) satellites),
        withGoodSignal =
          length (filter (\<lambda>sat. cn0DbHz sat \<noteq> None \<and> the (cn0DbHz sat) \<ge> 20) satellites),
        byConstellation = Map.empty,
        averageSignalStrength = 0,
        strongestSignal = 0,
        weakestSignal = 0\<rparr>;
       stats = stats\<lparr>byConstellation :=
         fold (\<lambda>sat counts. countConstellation counts (constellationName sat)) satellites
           (byConstellation stats)\<rparr>;
       signalStrengths =
         map (\<lambda>sat. the (cn0DbHz sat)) (filter (\<lambda>sat. cn0DbHz sat \<noteq> None) satellites)
     in case signalStrengths of
          [] \<Rightarrow> stats
        | s # rest \<Rightarrow>
            stats\<lparr>averageSignalStrength :=
                    foldl (\<lambda>a b. a + b) 0 signalStrengths / real (length signalStrengths),
                  strongestSignal := fold max rest s,
                  weakestSignal := fold min rest s\<rparr>)"

subsection \<open>Reading the counts, and a sample record\<close>

text \<open>
  The sum of the values of \<open>byConstellation\<close> that are numbers, and the invariant that
  every value is a number.
\<close>

definition countSum :: "(string \<rightharpoonup> propertyValue) \<Rightarrow> nat" where
  "countSum counts =
    (\<Sum>name\<in>dom counts. case counts name of Some (NumberValue n) \<Rightarrow> n | _ \<Rightarrow> 0)"

definition countsOnly :: "(string \<rightharpoonup> propertyValue) \<Rightarrow> bool" where
  "countsOnly counts = (finite (dom counts) \<and> TextValue \<notin> ran counts)"

text \<open>A satellite record with a given constellation name, signal and fix flag.\<close>

definition exampleSatellite :: "string \<Rightarrow> real option \<Rightarrow> bool \<Rightarrow> SatelliteInfo" where
  "exampleSatellite name signal used =
    \<lparr>svid = 1, constellationType = 1, constellationName = name, cn0DbHz = signal,
     elevation = None, azimuth = None, hasEphemeris = True, hasAlmanac = False,
     usedInFix = used, carrierFrequencyHz = None\<rparr>"

section \<open>The native module (GnssStatusCheckerModule.kt)\<close>

subsection \<open>Constants of the companion object\<close>

definition CONSTELLATION_UNKNOWN :: int where "CONSTELLATION_UNKNOWN = 0"
definition CONSTELLATION_GPS :: int where "CONSTELLATION_GPS = 1"
definition CONSTELLATION_SBAS :: int where "CONSTELLATION_SBAS = 2"
definition CONSTELLATION_GLONASS :: int where "CONSTELLATION_GLONASS = 3"
definition CONSTELLATION_QZSS :: int where "CONSTELLATION_QZSS = 4"
definition CONSTELLATION_BEIDOU :: int where "CONSTELLATION_BEIDOU = 5"
definition CONSTELLATION_GALILEO :: int where "CONSTELLATION_GALILEO = 6"
definition CONSTELLATION_IRNSS :: int where "CONSTELLATION_IRNSS = 7"

definition FREQ_TOLERANCE :: real where "FREQ_TOLERANCE = 10.0"

definition DUAL_FREQUENCY_BANDS :: "(real \<times> string) list" where
  "DUAL_FREQUENCY_BANDS =
    [(1176.45, ''L5/E5a/B2a''),
     (1227.6, ''L2''),
     (1207.14, ''E5b/B2''),
     (1268.52, ''B3''),
     (1278.75, ''E6/LEX''),
     (1191.795, ''E5''),
     (2492.028, ''S'')]"

definition native_GLONASS_L2_MIN :: real where "native_GLONASS_L2_MIN = 1242.9375"
definition native_GLONASS_L2_MAX :: real where "native_GLONASS_L2_MAX = 1248.625"

definition GPS_L5_FREQUENCY :: real where "GPS_L5_FREQUENCY = 1176.45"

text \<open>\<open>Build.VERSION_CODES.N\<close> and \<open>Build.VERSION_CODES.O\<close>.\<close>

definition VERSION_CODES_N :: nat where "VERSION_CODES_N = 24"
definition VERSION_CODES_O :: nat where "VERSION_CODES_O = 26"

text \<open>\<open>PackageManager.PERMISSION_GRANTED\<close> and \<open>PackageManager.PERMISSION_DENIED\<close>.\<close>

definition PERMISSION_GRANTED :: int where "PERMISSION_GRANTED = 0"
definition PERMISSION_DENIED :: int where "PERMISSION_DENIED = - 1"

subsection \<open>The dual-frequency test of the native module\<close>

text \<open>Kotlin's \<open>any\<close> on a collection.\<close>

fun any :: "('a \<Rightarrow> bool) \<Rightarrow> 'a list \<Rightarrow> bool" where
  "any p [] = False"
| "any p (x # xs) = (if p x then True else any p xs)"

text \<open>
  The value \<open>isDualFrequencySupported\<close> that \<open>getGNSSStatus\<close> and
  \<open>updateMeasurements\<close> compute from \<open>detectedFrequencies\<close>.  The frequencies are a
  hash set in the source; the list holds its elements in the order of iteration.
\<close>

definition native_isDualFrequencySupported :: "real list \<Rightarrow> bool" where
  "native_isDualFrequencySupported detectedFrequencies' =
    any (\<lambda>freq.
          any (\<lambda>dualFreq. \<bar>freq - dualFreq\<bar> \<le> FREQ_TOLERANCE) (map fst DUAL_FREQUENCY_BANDS)
          \<or> (freq \<ge> native_GLONASS_L2_MIN - FREQ_TOLERANCE
             \<and> freq \<le> native_GLONASS_L2_MAX + FREQ_TOLERANCE))
      detectedFrequencies'"

subsection \<open>State of the module and answers of the platform\<close>

text \<open>
  The mutable fields of the module.  A callback field is \<open>True\<close> when it holds a
  callback and \<open>False\<close> when it is \<open>null\<close>.  The satellite list holds the records in the
  shape \<open>toWritableMap\<close> hands them to JavaScript.
\<close>

record ModuleState =
  gnssStatusCallback :: bool
  gnssMeasurementsCallback :: bool
  currentSatelliteCount :: int
  satellitesUsedInFix :: int
  averageSignalToNoiseRatio :: real
  supportedConstellations :: "int list"
  detectedFrequencies :: "real list"
  satelliteDataList :: "SatelliteInfo list"

text \<open>
  What the Android system answers to the calls the module makes.  A call that can throw
  answers with the message of the exception (\<open>Inl\<close>, or \<open>Some\<close> for a call without a
  result).
\<close>

record Platform =
  checkSelfPermission :: int
  SDK_INT :: nat
  isProviderEnabled :: "string + bool"
  registerGnssStatusCallback :: "string option"
  registerGnssMeasurementsCallback :: "string option"

text \<open>A promise is settled once: resolved with a value or rejected with a code and a message.\<close>

datatype 'a promise = Resolved 'a | Rejected string string

text \<open>
  The map that \<open>getGNSSStatus\<close> resolves with.  Its key \<open>isDualFrequencySupported\<close> is
  the field \<open>result_isDualFrequencySupported\<close>, the name being taken by the function of
  index.ts.
\<close>

record GnssStatusResult =
  isGNSSSupported :: bool
  satellitesVisible :: int
  satellitesUsedInFix :: int
  averageSignalToNoiseRatio :: real
  apiLevel :: nat
  supportsCn0 :: bool
  supportsCarrierFreq :: bool
  supportedConstellations :: "string list"
  carrierFrequencies :: "real list"
  satellites :: "SatelliteInfo list"
  result_isDualFrequencySupported :: bool
  isNavICSupported :: bool

definition hasLocationPermission :: "Platform \<Rightarrow> bool" where
  "hasLocationPermission platform = (checkSelfPermission platform = PERMISSION_GRANTED)"

definition getConstellationName :: "int \<Rightarrow> string" where
  "getConstellationName constellation' =
    (if constellation' = CONSTELLATION_GPS then ''GPS''
     else if constellation' = CONSTELLATION_SBAS then ''SBAS''
     else if constellation' = CONSTELLATION_GLONASS then ''GLONASS''
     else if constellation' = CONSTELLATION_QZSS then ''QZSS''
     else if constellation' = CONSTELLATION_BEIDOU then ''BEIDOU''
     else if constellation' = CONSTELLATION_GALILEO then ''GALILEO''
     else if constellation' = CONSTELLATION_IRNSS then ''IRNSS''
     else ''UNKNOWN'')"

definition supportsAdvancedGnssFeatures :: "Platform \<Rightarrow> bool" where
  "supportsAdvancedGnssFeatures platform = (SDK_INT platform \<ge> VERSION_CODES_N)"

definition supportsCarrierFrequency :: "Platform \<Rightarrow> bool" where
  "supportsCarrierFrequency platform = (SDK_INT platform \<ge> VERSION_CODES_O)"

subsection \<open>\<open>getGNSSStatus\<close> and \<open>startListening\<close>\<close>

text \<open>
  Both bodies are a \<open>try\<close> whose \<open>catch\<close> rejects the promise with the code of the
  method.  \<open>getGNSSStatus\<close> reads the state and leaves it as it is.
\<close>

definition getGNSSStatus :: "Platform \<Rightarrow> ModuleState \<Rightarrow> GnssStatusResult promise" where
  "getGNSSStatus platform st =
    (if \<not> hasLocationPermission platform then
       Rejected ''PERMISSION_DENIED'' ''Location permission is required''
     else
       case isProviderEnabled platform of
         Inl message \<Rightarrow> Rejected ''GNSS_ERROR'' (''Failed to get GNSS status: '' @ message)
       | Inr isGNSSSupported' \<Rightarrow>
           Resolved
             \<lparr>isGNSSSupported = isGNSSSupported',
              satellitesVisible = currentSatelliteCount st,
              satellitesUsedInFix = ModuleState.satellitesUsedInFix st,
              averageSignalToNoiseRatio = ModuleState.averageSignalToNoiseRatio st,
              apiLevel = SDK_INT platform,
              supportsCn0 = supportsAdvancedGnssFeatures platform,
              supportsCarrierFreq = supportsCarrierFrequency platform,
              supportedConstellations =
                map getConstellationName (ModuleState.supportedConstellations st),
              carrierFrequencies = detectedFrequencies st,
              satellites = satelliteDataList st,
              result_isDualFrequencySupported =
                native_isDualFrequencySupported (detectedFrequencies st),
              isNavICSupported =
                (CONSTELLATION_IRNSS \<in> set (ModuleState.supportedConstellations st))\<rparr>)"

text \<open>
  \<open>startListening\<close> stores a callback in its field before it registers it, so the field
  stays set when the registration throws.
\<close>

definition startListening :: "Platform \<Rightarrow> ModuleState \<Rightarrow> unit promise \<times> ModuleState" where
  "startListening platform st =
    (if \<not> hasLocationPermission platform then
       (Rejected ''PERMISSION_DENIED'' ''Location permission is required'', st)
     else
       let st1 = (if \<not> gnssStatusCallback st then st\<lparr>gnssStatusCallback := True\<rparr> else st);
           thrown1 = (if \<not> gnssStatusCallback st then registerGnssStatusCallback platform
                      else None)
       in case thrown1 of
            Some message \<Rightarrow>
              (Rejected ''START_LISTENING_ERROR'' (''Failed to start listening: '' @ message), st1)
          | None \<Rightarrow>
              if SDK_INT platform \<ge> VERSION_CODES_N \<and> \<not> gnssMeasurementsCallback st1 then
                let st2 = st1\<lparr>gnssMeasurementsCallback := True\<rparr>
                in case registerGnssMeasurementsCallback platform of
                     Some message \<Rightarrow>
                       (Rejected ''START_LISTENING_ERROR''
                          (''Failed to start listening: '' @ message), st2)
                   | None \<Rightarrow> (Resolved (), st2)
              else (Resolved (), st1))"

subsection \<open>The module as constructed, and a sample platform\<close>

text \<open>The initial values of the fields of the module.\<close>

definition initialState :: ModuleState where
  "initialState =
    \<lparr>gnssStatusCallback = False, gnssMeasurementsCallback = False,
     currentSatelliteCount = 0, satellitesUsedInFix = 0, averageSignalToNoiseRatio = 0.0,
     supportedConstellations = [], detectedFrequencies = [], satelliteDataList = []\<rparr>"

text \<open>
  A device of API level 30 on which no call throws, with a given answer to the
  permission check.
\<close>

definition examplePlatform :: "int \<Rightarrow> Platform" where
  "examplePlatform permission =
    \<lparr>checkSelfPermission = permission, SDK_INT = 30, isProviderEnabled = Inr True,
     registerGnssStatusCallback = None, registerGnssMeasurementsCallback = None\<rparr>"

section \<open>Properties of the classifier\<close>

lemmas CarrierFrequencies_defs =
  GPS_L1_def GPS_L2_def GPS_L3_def GPS_L4_def GPS_L5_def
  GLONASS_L1_MIN_def GLONASS_L1_MAX_def GLONASS_L1_CENTER_def
  GLONASS_L2_MIN_def GLONASS_L2_MAX_def GLONASS_L2_CENTER_def
  GLONASS_L3_def GLONASS_L5_def
  QZSS_L1_def QZSS_L2_def QZSS_L5_def QZSS_LEX_def
  GALILEO_E1_def GALILEO_E5_def GALILEO_E5a_def GALILEO_E5b_def GALILEO_E6_def
  BEIDOU_B1_def BEIDOU_B1_2_def BEIDOU_B2_def BEIDOU_B2a_def BEIDOU_B3_def
  NAVIC_L5_def NAVIC_S_def SBAS_L1_def SBAS_L5_def

lemma identifyFrequencyBand_scan:
  "identifyFrequencyBand f t = classify implementedBands f t"
  unfolding identifyFrequencyBand_def implementedBands_def Let_def classify.simps matches.simps
    bandOf.simps fst_conv unknownBand_def
  by (rule refl)

lemma matches_mono: "t \<le> t' \<Longrightarrow> matches d f t \<Longrightarrow> matches d f t'"
  by (cases d) auto

lemma classify_frequency: "frequency (classify tbl f t) = f"
  by (induction tbl) (auto simp: unknownBand_def)

lemma classify_no_match:
  "(\<forall>e\<in>set tbl. \<not> matches (fst e) f t) \<Longrightarrow> classify tbl f t = unknownBand f"
  by (induction tbl) auto

lemma classify_match:
  "\<exists>e\<in>set tbl. matches (fst e) f t \<Longrightarrow>
   \<exists>e\<in>set tbl. matches (fst e) f t \<and> classify tbl f t = bandOf f e"
  by (induction tbl) auto

lemma classify_known_iff:
  assumes "\<forall>e\<in>set tbl. fst (snd e) \<noteq> ''UNKNOWN''"
  shows "constellation (classify tbl f t) \<noteq> ''UNKNOWN'' \<longleftrightarrow>
         (\<exists>e\<in>set tbl. matches (fst e) f t)"
  using assms by (induction tbl) (auto simp: unknownBand_def)

lemma implementedBands_named: "\<forall>e\<in>set implementedBands. fst (snd e) \<noteq> ''UNKNOWN''"
  by (simp add: implementedBands_def)

lemma some_iff: "some p xs \<longleftrightarrow> (\<exists>x\<in>set xs. p x)"
  by (induction xs) auto

lemma any_iff: "any p xs \<longleftrightarrow> (\<exists>x\<in>set xs. p x)"
  by (induction xs) auto

subsection \<open>Priority among shared frequencies\<close>

text \<open>
  Claim C3.  \<open>identifyFrequencyBand\<close> is the scan of its branches in their declared order
  that stops at the first match, for every frequency and tolerance.  So where several
  constellations share a nominal frequency the first declared one is returned:
  \<open>identifyFrequencyBand(1176.45)\<close> is GPS L5 with the dual-frequency flag set, and
  \<open>identifyFrequencyBand(1575.42)\<close> is the band L1 of GPS with the flag cleared.
\<close>

theorem first_match_wins:
  "identifyFrequencyBand f t = classify implementedBands f t
   \<and> identifyFrequencyBand 1176.45 default_tolerance =
       \<lparr>frequency = 1176.45, constellation = ''GPS'', band = ''L5'', isDualFrequency = True\<rparr>
   \<and> identifyFrequencyBand 1575.42 default_tolerance =
       \<lparr>frequency = 1575.42, constellation = ''GPS'', band = ''L1'', isDualFrequency = False\<rparr>"
proof (intro conjI)
  show "identifyFrequencyBand f t = classify implementedBands f t"
    by (rule identifyFrequencyBand_scan)
  show "identifyFrequencyBand 1176.45 default_tolerance =
       \<lparr>frequency = 1176.45, constellation = ''GPS'', band = ''L5'', isDualFrequency = True\<rparr>"
    by (simp add: identifyFrequencyBand_def default_tolerance_def CarrierFrequencies_defs)
  show "identifyFrequencyBand 1575.42 default_tolerance =
       \<lparr>frequency = 1575.42, constellation = ''GPS'', band = ''L1'', isDualFrequency = False\<rparr>"
    by (simp add: identifyFrequencyBand_def default_tolerance_def CarrierFrequencies_defs)
qed

subsection \<open>Dual-frequency support of a list of frequencies\<close>

text \<open>
  Claim C4.  \<open>isDualFrequencySupported\<close> of a list holds exactly when
  \<open>identifyFrequencyBand\<close>, called with the default tolerance \<open>1.0\<close>, sets the
  dual-frequency flag for at least one element of the list.  It is false for the empty
  list and for \<open>[1575.42]\<close>, and true for \<open>[1575.42, 1176.45]\<close>.
\<close>

theorem isDualFrequencySupported_iff:
  "isDualFrequencySupported fs =
     (\<exists>f\<in>set fs. isDualFrequency (identifyFrequencyBand f 1.0))
   \<and> isDualFrequencySupported [] = False
   \<and> isDualFrequencySupported [1575.42, 1176.45] = True
   \<and> isDualFrequencySupported [1575.42] = False"
proof (intro conjI)
  show "isDualFrequencySupported fs =
     (\<exists>f\<in>set fs. isDualFrequency (identifyFrequencyBand f 1.0))"
    by (simp add: isDualFrequencySupported_def some_iff default_tolerance_def)
  show "isDualFrequencySupported [] = False"
    by (simp add: isDualFrequencySupported_def)
  show "isDualFrequencySupported [1575.42, 1176.45] = True"
    by (simp add: isDualFrequencySupported_def default_tolerance_def identifyFrequencyBand_def
        CarrierFrequencies_defs)
  show "isDualFrequencySupported [1575.42] = False"
    by (simp add: isDualFrequencySupported_def default_tolerance_def identifyFrequencyBand_def
        CarrierFrequencies_defs)
qed

subsection \<open>Totality\<close>

text \<open>
  Claim C5.  For every frequency and every tolerance \<open>identifyFrequencyBand\<close> returns a
  \<open>FrequencyBandInfo\<close> that carries the frequency it was given.  When no branch of the
  function matches, the result is the band \<open>UNKNOWN\<close> of the constellation \<open>UNKNOWN\<close> with
  the dual-frequency flag cleared; when some branch matches, the result is the band of a
  matching branch.  The function has no other outcome.
\<close>

theorem identifyFrequencyBand_total:
  "(\<exists>info. identifyFrequencyBand f t = info \<and> frequency info = f)
   \<and> ((\<forall>e\<in>set implementedBands. \<not> matches (fst e) f t) \<longrightarrow>
        identifyFrequencyBand f t =
          \<lparr>frequency = f, constellation = ''UNKNOWN'', band = ''UNKNOWN'',
           isDualFrequency = False\<rparr>)
   \<and> ((\<exists>e\<in>set implementedBands. matches (fst e) f t) \<longrightarrow>
        (\<exists>e\<in>set implementedBands.
            matches (fst e) f t \<and> identifyFrequencyBand f t = bandOf f e))"
  using classify_no_match [of implementedBands f t] classify_match [of implementedBands f t]
  by (simp add: identifyFrequencyBand_scan classify_frequency unknownBand_def)

theorem identifyFrequencyBand_total_witness:
  "\<not> (\<exists>e\<in>set implementedBands. matches (fst e) 9999 1)
   \<and> identifyFrequencyBand 9999 1 =
       \<lparr>frequency = 9999, constellation = ''UNKNOWN'', band = ''UNKNOWN'',
        isDualFrequency = False\<rparr>
   \<and> (\<exists>e\<in>set implementedBands. matches (fst e) 1227 1)
   \<and> (\<exists>e\<in>set implementedBands.
         matches (fst e) 1227 1 \<and> identifyFrequencyBand 1227 1 = bandOf 1227 e)"
proof -
  have a: "\<forall>e\<in>set implementedBands. \<not> matches (fst e) 9999 1"
    by (simp add: implementedBands_def CarrierFrequencies_defs)
  have b: "\<exists>e\<in>set implementedBands. matches (fst e) 1227 1"
    by (simp add: implementedBands_def CarrierFrequencies_defs)
  show ?thesis
    using a b identifyFrequencyBand_total [of 9999 1] identifyFrequencyBand_total [of 1227 1]
    by blast
qed

subsection \<open>Monotonicity in the tolerance\<close>

text \<open>
  Claim C9.  For tolerances \<open>0 \<le> t \<le> t'\<close>, a frequency that \<open>identifyFrequencyBand\<close>
  gives a constellation other than \<open>UNKNOWN\<close> at tolerance \<open>t\<close> is given a constellation
  other than \<open>UNKNOWN\<close> at tolerance \<open>t'\<close> as well.
\<close>

theorem tolerance_monotone:
  assumes "0 \<le> t" and "t \<le> t'"
    and "constellation (identifyFrequencyBand f t) \<noteq> ''UNKNOWN''"
  shows "constellation (identifyFrequencyBand f t') \<noteq> ''UNKNOWN''"
proof -
  from assms(3) obtain e where e: "e \<in> set implementedBands" "matches (fst e) f t"
    using classify_known_iff [OF implementedBands_named, of f t]
    by (auto simp: identifyFrequencyBand_scan)
  from e(2) assms(2) have "matches (fst e) f t'"
    by (rule matches_mono [rotated])
  with e(1) show ?thesis
    using classify_known_iff [OF implementedBands_named, of f t']
    by (auto simp: identifyFrequencyBand_scan)
qed

theorem tolerance_monotone_witness:
  "(0::real) \<le> 1 \<and> (1::real) \<le> 5
   \<and> constellation (identifyFrequencyBand 1228 1) \<noteq> ''UNKNOWN''
   \<and> constellation (identifyFrequencyBand 1228 5) \<noteq> ''UNKNOWN''"
proof -
  have h: "constellation (identifyFrequencyBand 1228 1) \<noteq> ''UNKNOWN''"
    by (simp add: identifyFrequencyBand_def CarrierFrequencies_defs)
  show ?thesis
    using h tolerance_monotone [of 1 5 1228] by simp
qed

subsection \<open>The reference table of the specification\<close>

text \<open>
  Outside the windows of width one around 1191.795 and 1278.75 the function and the scan
  of the reference table agree, and a frequency that no row of the reference table
  matches is classified as unknown.
\<close>

lemma reference_agreement:
  assumes "\<not> \<bar>f - 1191.795\<bar> \<le> default_tolerance"
    and "\<not> \<bar>f - 1278.75\<bar> \<le> default_tolerance"
  shows "identifyFrequencyBand f default_tolerance = classify referenceTable f default_tolerance"
proof -
  have a: "\<not> matches (Nominal 1191.795) f default_tolerance"
    and b: "\<not> matches (Nominal 1278.75) f default_tolerance"
    using assms by simp_all
  show ?thesis
    unfolding identifyFrequencyBand_scan implementedBands_def referenceTable_def
      CarrierFrequencies_defs
    using a b by (simp del: matches.simps)
qed

lemma far_from_reference_unknown:
  assumes "\<forall>e\<in>set referenceTable. \<not> matches (fst e) f default_tolerance"
  shows "identifyFrequencyBand f default_tolerance = unknownBand f"
proof -
  have "\<forall>e\<in>set implementedBands. \<exists>e'\<in>set referenceTable. fst e' = fst e"
    by (simp add: implementedBands_def referenceTable_def CarrierFrequencies_defs)
  with assms have "\<forall>e\<in>set implementedBands. \<not> matches (fst e) f default_tolerance"
    by metis
  then show ?thesis
    by (simp add: identifyFrequencyBand_scan classify_no_match)
qed

lemma reference_rows_with_branch:
  "identifyFrequencyBand 2492.028 default_tolerance =
     \<lparr>frequency = 2492.028, constellation = ''NAVIC'', band = ''S'', isDualFrequency = True\<rparr>"
  "identifyFrequencyBand 1242.9375 default_tolerance =
     \<lparr>frequency = 1242.9375, constellation = ''GLONASS'', band = ''L2'',
      isDualFrequency = True\<rparr>"
  "identifyFrequencyBand 1248.625 default_tolerance =
     \<lparr>frequency = 1248.625, constellation = ''GLONASS'', band = ''L2'',
      isDualFrequency = True\<rparr>"
  "identifyFrequencyBand (1242.9375 - 1.1) default_tolerance =
     \<lparr>frequency = 1242.9375 - 1.1, constellation = ''UNKNOWN'', band = ''UNKNOWN'',
      isDualFrequency = False\<rparr>"
  by (simp_all add: identifyFrequencyBand_def default_tolerance_def CarrierFrequencies_defs)

text \<open>
  Claim C1 says that \<open>identifyFrequencyBand\<close> with the default tolerance returns, for a
  frequency within 1.0 MHz of a row of the reference table, that row's constellation, band
  and dual-frequency flag, the rows Galileo E5 (1191.795) and Galileo E6 and QZSS LEX
  (1278.75) included.  The function has no branch for these rows: at 1191.795 and at
  1278.75 it returns \<open>UNKNOWN\<close> with the flag cleared, where the scan of the reference table
  returns Galileo E5 and Galileo E6 with the flag set.
\<close>

theorem reference_rows_without_branch:
  "identifyFrequencyBand 1191.795 default_tolerance =
     \<lparr>frequency = 1191.795, constellation = ''UNKNOWN'', band = ''UNKNOWN'',
      isDualFrequency = False\<rparr>
   \<and> classify referenceTable 1191.795 default_tolerance =
     \<lparr>frequency = 1191.795, constellation = ''GALILEO'', band = ''E5'',
      isDualFrequency = True\<rparr>
   \<and> identifyFrequencyBand 1278.75 default_tolerance =
     \<lparr>frequency = 1278.75, constellation = ''UNKNOWN'', band = ''UNKNOWN'',
      isDualFrequency = False\<rparr>
   \<and> classify referenceTable 1278.75 default_tolerance =
     \<lparr>frequency = 1278.75, constellation = ''GALILEO'', band = ''E6'',
      isDualFrequency = True\<rparr>"
  by (simp add: identifyFrequencyBand_def referenceTable_def default_tolerance_def
      CarrierFrequencies_defs)

subsection \<open>The two dual-frequency tests\<close>

text \<open>
  Whenever the test of index.ts reports dual-frequency support, the test of the native
  module reports it too: every dual-frequency branch of \<open>identifyFrequencyBand\<close> is a key
  of \<open>DUAL_FREQUENCY_BANDS\<close> or the GLONASS L2 range, and the native tolerance is wider.
\<close>

lemma native_dual_iff:
  "native_isDualFrequencySupported fs \<longleftrightarrow>
    (\<exists>f\<in>set fs. (\<exists>d\<in>fst ` set DUAL_FREQUENCY_BANDS. \<bar>f - d\<bar> \<le> FREQ_TOLERANCE)
       \<or> (native_GLONASS_L2_MIN - FREQ_TOLERANCE \<le> f
          \<and> f \<le> native_GLONASS_L2_MAX + FREQ_TOLERANCE))"
  by (simp add: native_isDualFrequencySupported_def any_iff)

lemma dual_branches_in_native_bands:
  "\<forall>e\<in>set implementedBands. snd (snd (snd e)) \<longrightarrow>
     (case fst e of
        Nominal c \<Rightarrow> c \<in> fst ` set DUAL_FREQUENCY_BANDS
      | Range lo hi \<Rightarrow> lo = native_GLONASS_L2_MIN \<and> hi = native_GLONASS_L2_MAX)"
  by (simp add: implementedBands_def DUAL_FREQUENCY_BANDS_def CarrierFrequencies_defs
      native_GLONASS_L2_MIN_def native_GLONASS_L2_MAX_def)

lemma fine_implies_coarse_one:
  assumes "isDualFrequency (identifyFrequencyBand f default_tolerance)"
  shows "(\<exists>d\<in>fst ` set DUAL_FREQUENCY_BANDS. \<bar>f - d\<bar> \<le> FREQ_TOLERANCE)
       \<or> (native_GLONASS_L2_MIN - FREQ_TOLERANCE \<le> f
          \<and> f \<le> native_GLONASS_L2_MAX + FREQ_TOLERANCE)"
proof -
  have m: "\<exists>e\<in>set implementedBands. matches (fst e) f default_tolerance"
  proof (rule ccontr)
    assume "\<not> ?thesis"
    then have "identifyFrequencyBand f default_tolerance = unknownBand f"
      by (simp add: identifyFrequencyBand_scan classify_no_match)
    with assms show False by (simp add: unknownBand_def)
  qed
  from classify_match [OF m] obtain e where e: "e \<in> set implementedBands"
    "matches (fst e) f default_tolerance"
    "classify implementedBands f default_tolerance = bandOf f e"
    by blast
  from e(3) assms have dual: "snd (snd (snd e))"
    by (cases e) (simp add: identifyFrequencyBand_scan)
  show ?thesis
  proof (cases "fst e")
    case (Nominal c)
    with dual e(1) dual_branches_in_native_bands have "c \<in> fst ` set DUAL_FREQUENCY_BANDS"
      by fastforce
    moreover from Nominal e(2) have "\<bar>f - c\<bar> \<le> FREQ_TOLERANCE"
      by (simp add: default_tolerance_def FREQ_TOLERANCE_def)
    ultimately show ?thesis by blast
  next
    case (Range lo hi)
    with dual e(1) dual_branches_in_native_bands
    have "lo = native_GLONASS_L2_MIN \<and> hi = native_GLONASS_L2_MAX"
      by fastforce
    with Range e(2) show ?thesis
      by (simp add: default_tolerance_def FREQ_TOLERANCE_def)
  qed
qed

lemma fine_implies_coarse:
  "isDualFrequencySupported fs \<Longrightarrow> native_isDualFrequencySupported fs"
  unfolding native_dual_iff isDualFrequencySupported_def some_iff Let_def
  using fine_implies_coarse_one by blast

text \<open>
  Claim C2 says that on every frequency within 1.0 MHz of a dual-frequency nominal value
  of the reference table both tests report dual-frequency support.  At the nominal values
  of Galileo E5 (1191.795) and of Galileo E6 and QZSS LEX (1278.75) the native test reports
  support and the test of index.ts does not.
\<close>

theorem dual_frequency_checks_disagree:
  "\<bar>1191.795 - GALILEO_E5\<bar> \<le> default_tolerance
   \<and> isDualFrequencySupported [1191.795] = False
   \<and> native_isDualFrequencySupported [1191.795] = True
   \<and> \<bar>1278.75 - GALILEO_E6\<bar> \<le> default_tolerance
   \<and> isDualFrequencySupported [1278.75] = False
   \<and> native_isDualFrequencySupported [1278.75] = True"
  by (simp add: isDualFrequencySupported_def native_isDualFrequencySupported_def
      identifyFrequencyBand_def default_tolerance_def CarrierFrequencies_defs
      DUAL_FREQUENCY_BANDS_def FREQ_TOLERANCE_def native_GLONASS_L2_MIN_def
      native_GLONASS_L2_MAX_def)

section \<open>Properties of the satellite helpers\<close>

subsection \<open>Filtering by signal strength\<close>

text \<open>
  Claim C7.  For every list of satellites and every threshold,
  \<open>getSatellitesWithGoodSignal\<close> returns, in the order of the list, exactly the records
  whose signal is present and at least the threshold; a record whose signal is absent is
  never in the result.
\<close>

theorem good_signal_filter:
  "getSatellitesWithGoodSignal sats minCn0 =
     filter (\<lambda>sat. \<exists>c. cn0DbHz sat = Some c \<and> c \<ge> minCn0) sats
   \<and> (\<forall>sat\<in>set sats. cn0DbHz sat = None \<longrightarrow>
         sat \<notin> set (getSatellitesWithGoodSignal sats minCn0))"
proof -
  have "filter (\<lambda>sat. cn0DbHz sat \<noteq> None \<and> the (cn0DbHz sat) \<ge> minCn0) sats =
        filter (\<lambda>sat. \<exists>c. cn0DbHz sat = Some c \<and> c \<ge> minCn0) sats"
    by (rule filter_cong) auto
  then show ?thesis
    unfolding getSatellitesWithGoodSignal_def by auto
qed

theorem good_signal_filter_witness:
  "getSatellitesWithGoodSignal
     [exampleSatellite ''GPS'' None True, exampleSatellite ''GPS'' (Some 5) True,
      exampleSatellite ''GPS'' (Some (- 7)) True] 0
   = [exampleSatellite ''GPS'' (Some 5) True]
   \<and> exampleSatellite ''GPS'' None True \<notin> set (getSatellitesWithGoodSignal
     [exampleSatellite ''GPS'' None True, exampleSatellite ''GPS'' (Some 5) True,
      exampleSatellite ''GPS'' (Some (- 7)) True] 0)"
  using good_signal_filter [of "[exampleSatellite ''GPS'' None True,
      exampleSatellite ''GPS'' (Some 5) True, exampleSatellite ''GPS'' (Some (- 7)) True]" 0]
  by (simp add: exampleSatellite_def)

subsection \<open>Signal statistics\<close>

lemma foldl_plus: "foldl (\<lambda>a b. a + b) a xs = a + sum_list (xs::real list)"
  by (induction xs arbitrary: a) auto

lemma stats_signals_nonempty:
  assumes "map (\<lambda>sat. the (cn0DbHz sat)) (filter (\<lambda>sat. cn0DbHz sat \<noteq> None) sats) = s # rest"
  shows "averageSignalStrength (getSatelliteStatistics sats) =
           sum_list (s # rest) / real (length (s # rest))"
    and "strongestSignal (getSatelliteStatistics sats) = Max (set (s # rest))"
    and "weakestSignal (getSatelliteStatistics sats) = Min (set (s # rest))"
  using assms
  by (simp_all add: getSatelliteStatistics_def Let_def foldl_plus Max.set_eq_fold
      Min.set_eq_fold del: set_simps)

lemma stats_signals_empty:
  assumes "filter (\<lambda>sat. cn0DbHz sat \<noteq> None) sats = []"
  shows "averageSignalStrength (getSatelliteStatistics sats) = 0"
    and "strongestSignal (getSatelliteStatistics sats) = 0"
    and "weakestSignal (getSatelliteStatistics sats) = 0"
  using assms
  by (simp_all add: getSatelliteStatistics_def Let_def)

text \<open>
  Claim C6.  The signals that are present are \<open>List.map_filter cn0DbHz sats\<close>.  When
  there is one, \<open>getSatelliteStatistics\<close> reports their arithmetic mean, their maximum and
  their minimum; when no record has a signal it reports 0 for all three.  On the empty
  list every count is 0, \<open>byConstellation\<close> is empty and the three signal figures are 0.
  On records with the signals 25.0, 30.0 and none, the mean is 27.5, the strongest signal
  30.0, the weakest 25.0 and two records have a good signal.
\<close>

theorem getSatelliteStatistics_signals:
  "(List.map_filter cn0DbHz sats \<noteq> [] \<longrightarrow>
      averageSignalStrength (getSatelliteStatistics sats) =
        sum_list (List.map_filter cn0DbHz sats) / real (length (List.map_filter cn0DbHz sats))
      \<and> strongestSignal (getSatelliteStatistics sats) = Max (set (List.map_filter cn0DbHz sats))
      \<and> weakestSignal (getSatelliteStatistics sats) = Min (set (List.map_filter cn0DbHz sats)))
   \<and> ((\<forall>sat\<in>set sats. cn0DbHz sat = None) \<longrightarrow>
      averageSignalStrength (getSatelliteStatistics sats) = 0
      \<and> strongestSignal (getSatelliteStatistics sats) = 0
      \<and> weakestSignal (getSatelliteStatistics sats) = 0)
   \<and> getSatelliteStatistics [] =
       \<lparr>total = 0, usedInFix = 0, withEphemeris = 0, withAlmanac = 0, withGoodSignal = 0,
        byConstellation = Map.empty, averageSignalStrength = 0, strongestSignal = 0,
        weakestSignal = 0\<rparr>
   \<and> averageSignalStrength (getSatelliteStatistics
        [exampleSatellite ''GPS'' (Some 25.0) True, exampleSatellite ''GPS'' (Some 30.0) False,
         exampleSatellite ''GPS'' None False]) = 27.5
   \<and> strongestSignal (getSatelliteStatistics
        [exampleSatellite ''GPS'' (Some 25.0) True, exampleSatellite ''GPS'' (Some 30.0) False,
         exampleSatellite ''GPS'' None False]) = 30.0
   \<and> weakestSignal (getSatelliteStatistics
        [exampleSatellite ''GPS'' (Some 25.0) True, exampleSatellite ''GPS'' (Some 30.0) False,
         exampleSatellite ''GPS'' None False]) = 25.0
   \<and> withGoodSignal (getSatelliteStatistics
        [exampleSatellite ''GPS'' (Some 25.0) True, exampleSatellite ''GPS'' (Some 30.0) False,
         exampleSatellite ''GPS'' None False]) = 2"
proof -
  let ?xs = "List.map_filter cn0DbHz sats"
  have xs: "?xs = map (\<lambda>sat. the (cn0DbHz sat)) (filter (\<lambda>sat. cn0DbHz sat \<noteq> None) sats)"
    by (simp add: map_filter_def comp_def)
  have present: "averageSignalStrength (getSatelliteStatistics sats) =
        sum_list ?xs / real (length ?xs)
      \<and> strongestSignal (getSatelliteStatistics sats) = Max (set ?xs)
      \<and> weakestSignal (getSatelliteStatistics sats) = Min (set ?xs)" if "?xs \<noteq> []"
  proof -
    from that obtain s rest where sr: "?xs = s # rest"
      by (cases ?xs) auto
    note facts = stats_signals_nonempty [OF sr [unfolded xs]]
    from facts show ?thesis
      unfolding sr by blast
  qed
  have absent: "averageSignalStrength (getSatelliteStatistics sats) = 0
      \<and> strongestSignal (getSatelliteStatistics sats) = 0
      \<and> weakestSignal (getSatelliteStatistics sats) = 0"
    if "\<forall>sat\<in>set sats. cn0DbHz sat = None"
  proof -
    from that have e: "filter (\<lambda>sat. cn0DbHz sat \<noteq> None) sats = []"
      by (simp add: filter_empty_conv)
    from stats_signals_empty [OF e] show ?thesis
      by blast
  qed
  have nil: "getSatelliteStatistics [] =
       \<lparr>total = 0, usedInFix = 0, withEphemeris = 0, withAlmanac = 0, withGoodSignal = 0,
        byConstellation = Map.empty, averageSignalStrength = 0, strongestSignal = 0,
        weakestSignal = 0\<rparr>"
    by (simp add: getSatelliteStatistics_def)
  have e1: "averageSignalStrength (getSatelliteStatistics
        [exampleSatellite ''GPS'' (Some 25.0) True, exampleSatellite ''GPS'' (Some 30.0) False,
         exampleSatellite ''GPS'' None False]) = 27.5"
    by (simp add: getSatelliteStatistics_def exampleSatellite_def)
  have e2: "strongestSignal (getSatelliteStatistics
        [exampleSatellite ''GPS'' (Some 25.0) True, exampleSatellite ''GPS'' (Some 30.0) False,
         exampleSatellite ''GPS'' None False]) = 30.0"
    by (simp add: getSatelliteStatistics_def exampleSatellite_def)
  have e3: "weakestSignal (getSatelliteStatistics
        [exampleSatellite ''GPS'' (Some 25.0) True, exampleSatellite ''GPS'' (Some 30.0) False,
         exampleSatellite ''GPS'' None False]) = 25.0"
    by (simp add: getSatelliteStatistics_def exampleSatellite_def)
  have e4: "withGoodSignal (getSatelliteStatistics
        [exampleSatellite ''GPS'' (Some 25.0) True, exampleSatellite ''GPS'' (Some 30.0) False,
         exampleSatellite ''GPS'' None False]) = 2"
    by (simp add: getSatelliteStatistics_def exampleSatellite_def)
  from present absent nil e1 e2 e3 e4 show ?thesis
    by blast
qed

theorem getSatelliteStatistics_signals_witness:
  "averageSignalStrength (getSatelliteStatistics
      [exampleSatellite ''GPS'' (Some 40) True, exampleSatellite ''IRNSS'' None True,
       exampleSatellite ''GPS'' (Some 10) False]) = 25
   \<and> strongestSignal (getSatelliteStatistics
      [exampleSatellite ''GPS'' (Some 40) True, exampleSatellite ''IRNSS'' None True,
       exampleSatellite ''GPS'' (Some 10) False]) = 40
   \<and> weakestSignal (getSatelliteStatistics
      [exampleSatellite ''GPS'' (Some 40) True, exampleSatellite ''IRNSS'' None True,
       exampleSatellite ''GPS'' (Some 10) False]) = 10
   \<and> averageSignalStrength (getSatelliteStatistics [exampleSatellite ''GPS'' None True]) = 0
   \<and> strongestSignal (getSatelliteStatistics [exampleSatellite ''GPS'' None True]) = 0
   \<and> weakestSignal (getSatelliteStatistics [exampleSatellite ''GPS'' None True]) = 0"
proof -
  have a: "List.map_filter cn0DbHz
      [exampleSatellite ''GPS'' (Some 40) True, exampleSatellite ''IRNSS'' None True,
       exampleSatellite ''GPS'' (Some 10) False] = [40, 10]"
    by (simp add: map_filter_def exampleSatellite_def)
  have b: "\<forall>sat\<in>set [exampleSatellite ''GPS'' None True]. cn0DbHz sat = None"
    by (simp add: exampleSatellite_def)
  show ?thesis
    using getSatelliteStatistics_signals [of "[exampleSatellite ''GPS'' (Some 40) True,
       exampleSatellite ''IRNSS'' None True, exampleSatellite ''GPS'' (Some 10) False]"]
      getSatelliteStatistics_signals [of "[exampleSatellite ''GPS'' None True]"] b
    unfolding a by simp
qed

subsection \<open>Statistics against the filters\<close>

lemma countConstellation_plain:
  assumes "name \<notin> set objectPrototypeMembers" and "countsOnly m"
  shows "countsOnly (countConstellation m name)"
    and "countSum (countConstellation m name) = countSum m + 1"
proof -
  from assms(1) have np: "name \<noteq> ''__proto__''"
    by (auto simp: objectPrototypeMembers_def)
  from assms(2) have fin: "finite (dom m)" and nt: "TextValue \<notin> ran m"
    by (simp_all add: countsOnly_def)
  show "countsOnly (countConstellation m name)"
  proof (cases "m name")
    case None
    with assms(1) np fin nt show ?thesis
      by (auto simp: countsOnly_def countConstellation_def ran_def)
  next
    case (Some v)
    with nt obtain n where v: "v = NumberValue n"
      by (cases v) (auto simp: ran_def)
    with Some assms(1) np fin nt show ?thesis
      by (auto simp: countsOnly_def countConstellation_def ran_def)
  qed
  let ?val = "\<lambda>c name. case c name of Some (NumberValue n) \<Rightarrow> n | _ \<Rightarrow> (0::nat)"
  show "countSum (countConstellation m name) = countSum m + 1"
  proof (cases "m name")
    case None
    then have notin: "name \<notin> dom m" by auto
    have upd: "countConstellation m name = m(name \<mapsto> NumberValue 1)"
      using None assms(1) np by (simp add: countConstellation_def)
    have d: "dom (m(name \<mapsto> NumberValue 1)) = insert name (dom m)"
      by simp
    have a: "(\<Sum>k\<in>insert name (dom m). g k) = g name + (\<Sum>k\<in>dom m. g k)"
      for g :: "string \<Rightarrow> nat"
      using fin notin by simp
    have c: "(\<Sum>k\<in>dom m. ?val (m(name \<mapsto> NumberValue 1)) k) = (\<Sum>k\<in>dom m. ?val m k)"
      using notin by (intro sum.cong) auto
    have v: "?val (m(name \<mapsto> NumberValue 1)) name = 1"
      by simp
    have "countSum (m(name \<mapsto> NumberValue 1)) = 1 + (\<Sum>k\<in>dom m. ?val m k)"
      unfolding countSum_def d a c v by (rule refl)
    then show ?thesis
      by (simp add: upd countSum_def)
  next
    case (Some v)
    with nt obtain n where v: "v = NumberValue n"
      by (cases v) (auto simp: ran_def)
    have indom: "name \<in> dom m" using Some by auto
    have upd: "countConstellation m name = m(name \<mapsto> NumberValue (n + 1))"
      using Some v np by (simp add: countConstellation_def)
    have d: "dom (m(name \<mapsto> NumberValue (n + 1))) = dom m"
      using indom by auto
    have a: "(\<Sum>k\<in>dom m. g k) = g name + (\<Sum>k\<in>dom m - {name}. g k)"
      for g :: "string \<Rightarrow> nat"
      using fin indom by (rule sum.remove)
    have c: "(\<Sum>k\<in>dom m - {name}. ?val (m(name \<mapsto> NumberValue (n + 1))) k) =
             (\<Sum>k\<in>dom m - {name}. ?val m k)"
      by (intro sum.cong) auto
    have w: "?val (m(name \<mapsto> NumberValue (n + 1))) name = n + 1"
      by simp
    have l: "countSum (m(name \<mapsto> NumberValue (n + 1))) =
          n + 1 + (\<Sum>k\<in>dom m - {name}. ?val m k)"
      unfolding countSum_def d a [of "?val (m(name \<mapsto> NumberValue (n + 1)))"] c w
      by (rule refl)
    have "countSum m = ?val m name + (\<Sum>k\<in>dom m - {name}. ?val m k)"
      unfolding countSum_def using fin indom by (rule sum.remove)
    then have r: "countSum m = n + (\<Sum>k\<in>dom m - {name}. ?val m k)"
      using Some v by simp
    from l r show ?thesis
      by (simp add: upd)
  qed
qed

lemma fold_countConstellation:
  assumes "\<forall>sat\<in>set sats. constellationName sat \<notin> set objectPrototypeMembers"
    and "countsOnly m"
  shows "countsOnly (fold (\<lambda>sat counts. countConstellation counts (constellationName sat)) sats m)
    \<and> countSum (fold (\<lambda>sat counts. countConstellation counts (constellationName sat)) sats m)
        = countSum m + length sats"
  using assms
proof (induction sats arbitrary: m)
  case Nil
  then show ?case by simp
next
  case (Cons sat sats)
  from Cons.prems have n: "constellationName sat \<notin> set objectPrototypeMembers"
    and rest: "\<forall>sat\<in>set sats. constellationName sat \<notin> set objectPrototypeMembers"
    by simp_all
  note step = countConstellation_plain [OF n Cons.prems(2)]
  from Cons.IH [OF rest step(1)] step(2) show ?case
    by simp
qed

lemma byConstellation_fold:
  "byConstellation (getSatelliteStatistics sats) =
     fold (\<lambda>sat counts. countConstellation counts (constellationName sat)) sats Map.empty"
  by (simp add: getSatelliteStatistics_def Let_def split: list.splits)

lemma total_length: "total (getSatelliteStatistics sats) = length sats"
  by (simp add: getSatelliteStatistics_def Let_def split: list.splits)

text \<open>
  For satellites whose constellation names are not names of members that a plain object
  inherits, the counts of \<open>byConstellation\<close> sum to \<open>total\<close>.  The names that the native
  module gives (\<open>getConstellationName\<close>) are of this kind.
\<close>

lemma byConstellation_sum:
  assumes "\<forall>sat\<in>set sats. constellationName sat \<notin> set objectPrototypeMembers"
  shows "countsOnly (byConstellation (getSatelliteStatistics sats))"
    and "countSum (byConstellation (getSatelliteStatistics sats)) =
         total (getSatelliteStatistics sats)"
proof -
  have "countsOnly Map.empty" by (simp add: countsOnly_def)
  from fold_countConstellation [OF assms this]
  show "countsOnly (byConstellation (getSatelliteStatistics sats))"
    and "countSum (byConstellation (getSatelliteStatistics sats)) =
         total (getSatelliteStatistics sats)"
    by (simp_all add: byConstellation_fold total_length countSum_def)
qed

lemma getConstellationName_plain: "getConstellationName c \<notin> set objectPrototypeMembers"
  by (simp add: getConstellationName_def objectPrototypeMembers_def)

lemma stats_filters:
  "SatelliteStatistics.usedInFix (getSatelliteStatistics sats) =
     length (getSatellitesUsedInFix sats)"
  "withGoodSignal (getSatelliteStatistics sats) =
     length (getSatellitesWithGoodSignal sats default_minCn0)"
  by (simp_all add: getSatelliteStatistics_def Let_def getSatellitesUsedInFix_def
      getSatellitesWithGoodSignal_def default_minCn0_def split: list.splits)

text \<open>
  A record built by hand with the name of an inherited member is outside the records the
  native module produces.  For one such record, named \<open>constructor\<close>, the value stored in
  \<open>byConstellation\<close> is a text and not a count.
\<close>

lemma byConstellation_inherited_member:
  "total (getSatelliteStatistics [exampleSatellite ''constructor'' None False]) = 1
   \<and> byConstellation (getSatelliteStatistics [exampleSatellite ''constructor'' None False])
       = [''constructor'' \<mapsto> TextValue]"
  by (simp add: getSatelliteStatistics_def exampleSatellite_def countConstellation_def
      objectPrototypeMembers_def)

text \<open>
  Claim C10.  The statistics agree with the filters, for every list of satellite records
  whose constellation names are names that \<open>getConstellationName\<close> gives, as the names of
  all records of the native module are: \<open>usedInFix\<close> is the length of
  \<open>getSatellitesUsedInFix\<close>, \<open>withGoodSignal\<close> is the length of
  \<open>getSatellitesWithGoodSignal\<close> at threshold 20, every value of \<open>byConstellation\<close> is a
  count, and the counts sum to \<open>total\<close>.
\<close>

theorem statistics_agree_with_filters:
  assumes "\<forall>sat\<in>set sats. constellationName sat \<in> range getConstellationName"
  shows "SatelliteStatistics.usedInFix (getSatelliteStatistics sats) =
           length (getSatellitesUsedInFix sats)
         \<and> withGoodSignal (getSatelliteStatistics sats) =
           length (getSatellitesWithGoodSignal sats 20)
         \<and> countsOnly (byConstellation (getSatelliteStatistics sats))
         \<and> countSum (byConstellation (getSatelliteStatistics sats)) =
           total (getSatelliteStatistics sats)"
proof -
  from assms have plain: "\<forall>sat\<in>set sats. constellationName sat \<notin> set objectPrototypeMembers"
    using getConstellationName_plain by auto
  from stats_filters [of sats] byConstellation_sum [OF plain] show ?thesis
    by (simp add: default_minCn0_def)
qed

theorem statistics_agree_with_filters_witness:
  "SatelliteStatistics.usedInFix (getSatelliteStatistics
      [exampleSatellite ''GPS'' (Some 25) True, exampleSatellite ''IRNSS'' None True,
       exampleSatellite ''GPS'' (Some 10) False]) = 2
   \<and> length (getSatellitesUsedInFix
      [exampleSatellite ''GPS'' (Some 25) True, exampleSatellite ''IRNSS'' None True,
       exampleSatellite ''GPS'' (Some 10) False]) = 2
   \<and> withGoodSignal (getSatelliteStatistics
      [exampleSatellite ''GPS'' (Some 25) True, exampleSatellite ''IRNSS'' None True,
       exampleSatellite ''GPS'' (Some 10) False]) = 1
   \<and> length (getSatellitesWithGoodSignal
      [exampleSatellite ''GPS'' (Some 25) True, exampleSatellite ''IRNSS'' None True,
       exampleSatellite ''GPS'' (Some 10) False] 20) = 1
   \<and> total (getSatelliteStatistics
      [exampleSatellite ''GPS'' (Some 25) True, exampleSatellite ''IRNSS'' None True,
       exampleSatellite ''GPS'' (Some 10) False]) = 3
   \<and> countSum (byConstellation (getSatelliteStatistics
      [exampleSatellite ''GPS'' (Some 25) True, exampleSatellite ''IRNSS'' None True,
       exampleSatellite ''GPS'' (Some 10) False])) = 3
   \<and> byConstellation (getSatelliteStatistics
      [exampleSatellite ''GPS'' (Some 25) True, exampleSatellite ''IRNSS'' None True,
       exampleSatellite ''GPS'' (Some 10) False]) = [''GPS'' \<mapsto> NumberValue 2, ''IRNSS'' \<mapsto> NumberValue 1]"
proof -
  have gps: "''GPS'' = getConstellationName CONSTELLATION_GPS"
    and irnss: "''IRNSS'' = getConstellationName CONSTELLATION_IRNSS"
    by (simp_all add: getConstellationName_def CONSTELLATION_GPS_def CONSTELLATION_SBAS_def
        CONSTELLATION_GLONASS_def CONSTELLATION_QZSS_def CONSTELLATION_BEIDOU_def
        CONSTELLATION_GALILEO_def CONSTELLATION_IRNSS_def)
  have names: "\<forall>sat\<in>set
      [exampleSatellite ''GPS'' (Some 25) True, exampleSatellite ''IRNSS'' None True,
       exampleSatellite ''GPS'' (Some 10) False]. constellationName sat \<in> range getConstellationName"
    using gps irnss by (simp add: exampleSatellite_def)
  have inFix: "length (getSatellitesUsedInFix
      [exampleSatellite ''GPS'' (Some 25) True, exampleSatellite ''IRNSS'' None True,
       exampleSatellite ''GPS'' (Some 10) False]) = 2"
    by (simp add: getSatellitesUsedInFix_def exampleSatellite_def)
  have good: "length (getSatellitesWithGoodSignal
      [exampleSatellite ''GPS'' (Some 25) True, exampleSatellite ''IRNSS'' None True,
       exampleSatellite ''GPS'' (Some 10) False] 20) = 1"
    by (simp add: getSatellitesWithGoodSignal_def exampleSatellite_def)
  have tot: "total (getSatelliteStatistics
      [exampleSatellite ''GPS'' (Some 25) True, exampleSatellite ''IRNSS'' None True,
       exampleSatellite ''GPS'' (Some 10) False]) = 3"
    by (simp add: getSatelliteStatistics_def exampleSatellite_def)
  have counts: "byConstellation (getSatelliteStatistics
      [exampleSatellite ''GPS'' (Some 25) True, exampleSatellite ''IRNSS'' None True,
       exampleSatellite ''GPS'' (Some 10) False]) = [''GPS'' \<mapsto> NumberValue 2, ''IRNSS'' \<mapsto> NumberValue 1]"
    by (simp add: getSatelliteStatistics_def exampleSatellite_def countConstellation_def
        objectPrototypeMembers_def fun_upd_twist numeral_2_eq_2)
  from statistics_agree_with_filters [OF names] inFix good tot counts show ?thesis
    by simp
qed

section \<open>Properties of the native module\<close>

text \<open>
  Claim C8.  When the location permission is not granted, \<open>getGNSSStatus\<close> and
  \<open>startListening\<close> reject the promise with the code \<open>PERMISSION_DENIED\<close>, and
  \<open>startListening\<close> leaves the state as it was.  A promise that either method resolves was
  resolved with the permission granted.  With the permission granted neither method
  rejects with the code \<open>PERMISSION_DENIED\<close>, so the code tells this failure from the
  others.
\<close>

theorem permission_denied_rejects:
  "(\<not> hasLocationPermission platform \<longrightarrow>
      getGNSSStatus platform st =
        Rejected ''PERMISSION_DENIED'' ''Location permission is required''
      \<and> startListening platform st =
        (Rejected ''PERMISSION_DENIED'' ''Location permission is required'', st))
   \<and> ((\<exists>result. getGNSSStatus platform st = Resolved result) \<longrightarrow>
        hasLocationPermission platform)
   \<and> ((\<exists>st'. startListening platform st = (Resolved (), st')) \<longrightarrow>
        hasLocationPermission platform)
   \<and> (hasLocationPermission platform \<longrightarrow>
        (\<forall>message. getGNSSStatus platform st \<noteq> Rejected ''PERMISSION_DENIED'' message)
        \<and> (\<forall>message st'. startListening platform st \<noteq>
              (Rejected ''PERMISSION_DENIED'' message, st')))"
  by (auto simp: getGNSSStatus_def startListening_def Let_def split: sum.splits option.splits
      if_splits)

theorem permission_denied_rejects_witness:
  "\<not> hasLocationPermission (examplePlatform PERMISSION_DENIED)
   \<and> getGNSSStatus (examplePlatform PERMISSION_DENIED) initialState =
       Rejected ''PERMISSION_DENIED'' ''Location permission is required''
   \<and> startListening (examplePlatform PERMISSION_DENIED) initialState =
       (Rejected ''PERMISSION_DENIED'' ''Location permission is required'', initialState)
   \<and> (\<exists>result. getGNSSStatus (examplePlatform PERMISSION_GRANTED) initialState =
         Resolved result)
   \<and> (\<exists>st'. startListening (examplePlatform PERMISSION_GRANTED) initialState =
         (Resolved (), st'))
   \<and> hasLocationPermission (examplePlatform PERMISSION_GRANTED)"
proof -
  have denied: "\<not> hasLocationPermission (examplePlatform PERMISSION_DENIED)"
    by (simp add: hasLocationPermission_def examplePlatform_def PERMISSION_DENIED_def
        PERMISSION_GRANTED_def)
  have status: "\<exists>result. getGNSSStatus (examplePlatform PERMISSION_GRANTED) initialState =
         Resolved result"
    by (simp add: getGNSSStatus_def hasLocationPermission_def examplePlatform_def)
  have listening: "\<exists>st'. startListening (examplePlatform PERMISSION_GRANTED) initialState =
         (Resolved (), st')"
    by (simp add: startListening_def hasLocationPermission_def examplePlatform_def
        initialState_def VERSION_CODES_N_def)
  from denied status listening
    permission_denied_rejects [of "examplePlatform PERMISSION_DENIED" initialState]
    permission_denied_rejects [of "examplePlatform PERMISSION_GRANTED" initialState]
  show ?thesis
    by blast
qed

end
